theory Spec2Isabelle
  imports
    Main
    "HOL-Library.Sublist"
    "HOL-Library.Multiset"
    "HOL-Library.Char_ord"
    "HOL-Library.List_Lexorder"
    "HOL-Library.Option_ord"
    "HOL-Library.Product_Lexorder"
begin

section \<open>The paper view of the literature database (src/view_paper.py)\<close>

text \<open>
  The page loads the papers joined with their assessments into a dataframe, filters it,
  shows one label per row in a select box and finds the row of the chosen label again.
  A dataframe is modelled as the list of its rows in frame order, a row as a record of
  the columns the query selects. A column that SQL can leave NULL (pandas: NaN/None) has
  an option type; the two flags of an assessment, stored as 0 and 1, are booleans. Python strings are
  lists of characters; slicing and \<open>len\<close> count characters.
\<close>

subsection \<open>The two relations and the joined row\<close>

record paper =
  p_id :: int
  p_doi :: "string option"
  p_title :: string
  p_authors :: "string option"
  p_publication_year :: "int option"
  p_venue :: "string option"
  p_volume :: "string option"
  p_publication_type :: "string option"
  p_publication_source :: "string option"
  p_processed :: "bool option"
  p_file_path :: "string option"

record assessment =
  a_paper_id :: int
  a_is_neurosymbolic :: "bool option"
  a_is_development :: "bool option"
  a_paper_type :: "string option"
  a_summary :: "string option"
  a_takeaways :: "string option"
  a_assessment_date :: "string option"

record row =
  row_id :: int
  doi :: "string option"
  title :: string
  authors :: "string option"
  publication_year :: "int option"
  venue :: "string option"
  volume :: "string option"
  publication_type :: "string option"
  publication_source :: "string option"
  processed :: "bool option"
  file_path :: "string option"
  is_neurosymbolic :: "bool option"
  is_development :: "bool option"
  paper_type :: "string option"
  summary :: "string option"
  takeaways :: "string option"
  assessment_date :: "string option"
  assessment_status :: string

type_synonym table = "row list"

subsection \<open>load_paper_details: the query\<close>

text \<open>
  \<open>FROM papers p LEFT JOIN paper_assessments a ON p.id = a.paper_id\<close>: every paper is
  paired with each assessment whose \<open>paper_id\<close> is the paper's \<open>id\<close>, and with no
  assessment (all columns of \<open>a\<close> NULL) when there is none.
\<close>

definition left_join :: "paper list \<Rightarrow> assessment list \<Rightarrow> (paper \<times> assessment option) list" where
  "left_join papers paper_assessments =
     concat (map (\<lambda>p.
       (case filter (\<lambda>a. p_id p = a_paper_id a) paper_assessments of
          [] \<Rightarrow> [(p, None)]
        | ms \<Rightarrow> map (\<lambda>a. (p, Some a)) ms)) papers)"

text \<open>A column of \<open>a\<close> in a joined pair: NULL when the pair has no assessment.\<close>

definition a_col :: "(assessment \<Rightarrow> 'v option) \<Rightarrow> assessment option \<Rightarrow> 'v option" where
  "a_col c ao = (case ao of None \<Rightarrow> None | Some a \<Rightarrow> c a)"

text \<open>
  \<open>CASE WHEN a.paper_id IS NULL THEN 'Unassessed'
        WHEN a.is_neurosymbolic = 1 THEN 'Neurosymbolic' ELSE 'Other' END\<close>
\<close>

definition status_case :: "assessment option \<Rightarrow> string" where
  "status_case ao =
     (if a_col (\<lambda>a. Some (a_paper_id a)) ao = None then ''Unassessed''
      else if a_col a_is_neurosymbolic ao = Some True then ''Neurosymbolic''
      else ''Other'')"

definition select_row :: "paper \<times> assessment option \<Rightarrow> row" where
  "select_row pa =
     (case pa of (p, ao) \<Rightarrow>
       \<lparr> row_id = p_id p,
         doi = p_doi p,
         title = p_title p,
         authors = p_authors p,
         publication_year = p_publication_year p,
         venue = p_venue p,
         volume = p_volume p,
         publication_type = p_publication_type p,
         publication_source = p_publication_source p,
         processed = p_processed p,
         file_path = p_file_path p,
         is_neurosymbolic = a_col a_is_neurosymbolic ao,
         is_development = a_col a_is_development ao,
         paper_type = a_col a_paper_type ao,
         summary = a_col a_summary ao,
         takeaways = a_col a_takeaways ao,
         assessment_date = a_col a_assessment_date ao,
         assessment_status = status_case ao \<rparr>)"

text \<open>
  \<open>ORDER BY a.assessment_date DESC, p.publication_year DESC\<close>. SQLite orders NULL before
  every value, so descending puts it last; \<open>None\<close> is the least element of an option
  order. For rows with equal keys the query fixes no order and the engine's choice is
  not modelled: this function puts them in the order of the join, which need not be the
  order SQLite returns. The properties of the loaded table below speak of its rows only,
  never of the order among rows with equal keys.
\<close>

definition order_by_desc :: "table \<Rightarrow> table" where
  "order_by_desc rows =
     rev (sort_key (\<lambda>r. (assessment_date r, publication_year r)) (rev rows))"

definition load_paper_details :: "paper list \<Rightarrow> assessment list \<Rightarrow> table" where
  "load_paper_details papers paper_assessments =
     order_by_desc (map select_row (left_join papers paper_assessments))"

subsection \<open>apply_filters\<close>

text \<open>
  The filter specification is a dict with the keys \<open>years\<close>, \<open>paper_type\<close>, \<open>focus\<close> and
  \<open>development\<close>; a key that is absent is \<open>None\<close> (what \<open>filters.get\<close> returns).
\<close>

record filters =
  f_years :: "int list option"
  f_paper_type :: "string option"
  f_focus :: "string option"
  f_development :: "string option"

text \<open>Python truth of \<open>filters.get(k)\<close>: the key is present and its value is not empty.\<close>

definition truthy :: "'a list option \<Rightarrow> bool" where
  "truthy v = (case v of None \<Rightarrow> False | Some x \<Rightarrow> x \<noteq> [])"

text \<open>\<open>Series.isin(values)\<close> on one cell: a missing cell is in no list.\<close>

definition isin :: "'a option \<Rightarrow> 'a list \<Rightarrow> bool" where
  "isin cell vs = (case cell of None \<Rightarrow> False | Some x \<Rightarrow> x \<in> set vs)"

definition apply_filters :: "table \<Rightarrow> filters \<Rightarrow> table" where
  "apply_filters df fs =
     (let filtered_df = df;
          filtered_df =
            (if truthy (f_years fs)
             then filter (\<lambda>r. isin (publication_year r) (the (f_years fs))) filtered_df
             else filtered_df);
          filtered_df =
            (if truthy (f_paper_type fs) \<and> f_paper_type fs \<noteq> Some ''All''
             then filter (\<lambda>r. paper_type r = f_paper_type fs \<and> paper_type r \<noteq> None) filtered_df
             else filtered_df);
          filtered_df =
            (if truthy (f_focus fs) \<and> f_focus fs \<noteq> Some ''All''
             then (if f_focus fs = Some ''Neurosymbolic''
                   then filter (\<lambda>r. assessment_status r = ''Neurosymbolic'') filtered_df
                   else filter (\<lambda>r. assessment_status r \<in> set [''Unassessed'', ''Other''])
                          filtered_df)
             else filtered_df);
          filtered_df =
            (if truthy (f_development fs) \<and> f_development fs \<noteq> Some ''All''
             then (if f_development fs = Some ''Yes''
                   then filter (\<lambda>r. is_development r = Some True) filtered_df
                   else filter (\<lambda>r. is_development r = Some False \<or> is_development r = None)
                          filtered_df)
             else filtered_df)
      in filtered_df)"

subsection \<open>apply_filters on an object store\<close>

text \<open>
  \<open>df.copy()\<close> and every \<open>filtered_df[mask]\<close> build a new frame, and the local name
  \<open>filtered_df\<close> is bound to it; no frame is written in place. To state that the caller's
  frame is left as it was, the same function is given over a store of frames: a reference
  is an index into the store, a new frame is appended. A Python reference always points
  to an object, so the frame \<open>df\<close> is meant to be below \<open>length h\<close>.
\<close>

type_synonym heap = "table list"

definition new_frame :: "heap \<Rightarrow> table \<Rightarrow> heap \<times> nat" where
  "new_frame h t = (h @ [t], length h)"

definition apply_filters_heap :: "heap \<Rightarrow> nat \<Rightarrow> filters \<Rightarrow> heap \<times> nat" where
  "apply_filters_heap h0 df fs =
     (let (h, filtered_df) = new_frame h0 (h0 ! df);
          (h, filtered_df) =
            (if truthy (f_years fs)
             then new_frame h
                    (filter (\<lambda>r. isin (publication_year r) (the (f_years fs))) (h ! filtered_df))
             else (h, filtered_df));
          (h, filtered_df) =
            (if truthy (f_paper_type fs) \<and> f_paper_type fs \<noteq> Some ''All''
             then new_frame h
                    (filter (\<lambda>r. paper_type r = f_paper_type fs \<and> paper_type r \<noteq> None)
                       (h ! filtered_df))
             else (h, filtered_df));
          (h, filtered_df) =
            (if truthy (f_focus fs) \<and> f_focus fs \<noteq> Some ''All''
             then (if f_focus fs = Some ''Neurosymbolic''
                   then new_frame h
                          (filter (\<lambda>r. assessment_status r = ''Neurosymbolic'') (h ! filtered_df))
                   else new_frame h
                          (filter (\<lambda>r. assessment_status r \<in> set [''Unassessed'', ''Other''])
                             (h ! filtered_df)))
             else (h, filtered_df));
          (h, filtered_df) =
            (if truthy (f_development fs) \<and> f_development fs \<noteq> Some ''All''
             then (if f_development fs = Some ''Yes''
                   then new_frame h (filter (\<lambda>r. is_development r = Some True) (h ! filtered_df))
                   else new_frame h
                          (filter (\<lambda>r. is_development r = Some False \<or> is_development r = None)
                             (h ! filtered_df)))
             else (h, filtered_df))
      in (h, filtered_df))"

subsection \<open>papers_view: the filter step\<close>

text \<open>
  \<open>if filters: filtered_df = apply_filters(papers_df, filters) else: filtered_df = papers_df\<close>.
  The parameter defaults to \<open>None\<close>; a dict is true when it has a key. (A key bound to
  \<open>None\<close> is read here as an absent key: \<open>apply_filters\<close> skips both alike.)
\<close>

definition has_key :: "filters \<Rightarrow> bool" where
  "has_key fs =
     (f_years fs \<noteq> None \<or> f_paper_type fs \<noteq> None \<or> f_focus fs \<noteq> None \<or> f_development fs \<noteq> None)"

definition view_filtered :: "table \<Rightarrow> filters option \<Rightarrow> table" where
  "view_filtered papers_df fo =
     (case fo of
        None \<Rightarrow> papers_df
      | Some fs \<Rightarrow> (if has_key fs then apply_filters papers_df fs else papers_df))"

subsection \<open>Filter specifications with chosen keys\<close>

definition no_filters :: filters where
  "no_filters = \<lparr> f_years = None, f_paper_type = None, f_focus = None, f_development = None \<rparr>"

datatype dimension = Years | Paper_type | Focus | Development

text \<open>The dict \<open>{k: fs[k] for k in ds if k in fs}\<close>.\<close>

definition only :: "dimension list \<Rightarrow> filters \<Rightarrow> filters" where
  "only ds fs =
     \<lparr> f_years = (if Years \<in> set ds then f_years fs else None),
       f_paper_type = (if Paper_type \<in> set ds then f_paper_type fs else None),
       f_focus = (if Focus \<in> set ds then f_focus fs else None),
       f_development = (if Development \<in> set ds then f_development fs else None) \<rparr>"

subsection \<open>The select box: format_paper_title and the selector\<close>

text \<open>
  Errors as values. \<open>IndexError\<close> is what the list index \<open>[1]\<close> and \<open>.iloc[0]\<close> raise;
  \<open>OperationalError\<close> is the sqlite3 error that \<open>papers_view\<close> catches around the loader.
  \<open>SelectionInconsistent\<close> is the error that the specification names for a label without
  a row; the source defines no such class and has no \<open>raise\<close> statement.
\<close>

datatype py_error = IndexError | OperationalError | SelectionInconsistent

text \<open>\<open>s.startswith(pat)\<close>\<close>

definition startswith :: "string \<Rightarrow> string \<Rightarrow> bool" where
  "startswith s pat = prefix pat s"

text \<open>
  \<open>s.split(sep, 1)\<close> for a separator that is not empty: the text before and after the
  leftmost occurrence of \<open>sep\<close>, or \<open>None\<close> where Python returns the one-element list \<open>[s]\<close>.
\<close>

fun split_once :: "string \<Rightarrow> string \<Rightarrow> (string \<times> string) option" where
  "split_once sep [] = None"
| "split_once sep (c # cs) =
     (if prefix sep (c # cs) then Some ([], drop (length sep) (c # cs))
      else (case split_once sep cs of
              None \<Rightarrow> None
            | Some (before, after) \<Rightarrow> Some (c # before, after)))"

text \<open>\<open>s.split(sep)[0]\<close>: the text before the leftmost occurrence of \<open>sep\<close>, all of \<open>s\<close>
  when there is none.\<close>

fun before_first :: "string \<Rightarrow> string \<Rightarrow> string" where
  "before_first sep [] = []"
| "before_first sep (c # cs) =
     (if prefix sep (c # cs) then [] else c # before_first sep cs)"

definition format_paper_title :: "row \<Rightarrow> string" where
  "format_paper_title r =
     (let status = ''['' @ assessment_status r @ ''] '';
          shown = (if length (title r) > 100 then take 100 (title r) @ ''...'' else title r)
      in status @ shown)"

text \<open>
  \<open>original_title = selected_paper_title.split('] ', 1)[1].split('...')[0]\<close>; the index
  \<open>[1]\<close> raises IndexError when the label has no \<open>'] '\<close>.
\<close>

definition extract_title :: "string \<Rightarrow> py_error + string" where
  "extract_title selected_paper_title =
     (case split_once ''] '' selected_paper_title of
        None \<Rightarrow> Inl IndexError
      | Some (before, after) \<Rightarrow> Inr (before_first ''...'' after))"

text \<open>
  \<open>paper = filtered_df[filtered_df['title'].str.startswith(original_title)].iloc[0]\<close>;
  \<open>.iloc[0]\<close> of a frame without rows raises IndexError.
\<close>

definition selector :: "table \<Rightarrow> string \<Rightarrow> py_error + row" where
  "selector filtered_df selected_paper_title =
     (case extract_title selected_paper_title of
        Inl e \<Rightarrow> Inl e
      | Inr original_title \<Rightarrow>
          (case filter (\<lambda>r. startswith (title r) original_title) filtered_df of
             [] \<Rightarrow> Inl IndexError
           | paper # rest \<Rightarrow> Inr paper))"


subsection \<open>Rows and tables for concrete runs\<close>

definition a_row :: "int \<Rightarrow> string \<Rightarrow> int option \<Rightarrow> bool option \<Rightarrow> string \<Rightarrow> row" where
  "a_row i t y d s =
     \<lparr> row_id = i, doi = None, title = t, authors = None, publication_year = y, venue = None,
       volume = None, publication_type = None, publication_source = None, processed = None,
       file_path = None, is_neurosymbolic = None, is_development = d, paper_type = None,
       summary = None, takeaways = None, assessment_date = None, assessment_status = s \<rparr>"

definition a_paper :: "int \<Rightarrow> string \<Rightarrow> paper" where
  "a_paper i t =
     \<lparr> p_id = i, p_doi = None, p_title = t, p_authors = None, p_publication_year = None,
       p_venue = None, p_volume = None, p_publication_type = None,
       p_publication_source = None, p_processed = None, p_file_path = None \<rparr>"

definition an_assessment :: "int \<Rightarrow> bool option \<Rightarrow> assessment" where
  "an_assessment i n =
     \<lparr> a_paper_id = i, a_is_neurosymbolic = n, a_is_development = None, a_paper_type = None,
       a_summary = None, a_takeaways = None, a_assessment_date = None \<rparr>"

text \<open>The condition of the selector roundtrip as the specification words it: the first
  100 characters of the titles are pairwise distinct.\<close>

definition unique_prefixes :: "table \<Rightarrow> bool" where
  "unique_prefixes df = distinct (map (\<lambda>r. take 100 (title r)) df)"

text \<open>A title of exactly 100 characters with an ellipsis in it.\<close>

definition dotted_title :: string where
  "dotted_title =
     ''And yet... it moves: a survey of neurosymbolic approaches to physical reasoning in learned world mod''"

subsection \<open>Devices of the proofs\<close>

text \<open>
  The four steps of \<open>apply_filters\<close> keep a row exactly when it passes the test of every
  key that is switched on.
\<close>

definition year_pass :: "filters \<Rightarrow> row \<Rightarrow> bool" where
  "year_pass fs r =
     (if truthy (f_years fs) then isin (publication_year r) (the (f_years fs)) else True)"

definition type_pass :: "filters \<Rightarrow> row \<Rightarrow> bool" where
  "type_pass fs r =
     (if truthy (f_paper_type fs) \<and> f_paper_type fs \<noteq> Some ''All''
      then paper_type r = f_paper_type fs \<and> paper_type r \<noteq> None else True)"

definition focus_pass :: "filters \<Rightarrow> row \<Rightarrow> bool" where
  "focus_pass fs r =
     (if truthy (f_focus fs) \<and> f_focus fs \<noteq> Some ''All''
      then (if f_focus fs = Some ''Neurosymbolic''
            then assessment_status r = ''Neurosymbolic''
            else assessment_status r \<in> set [''Unassessed'', ''Other''])
      else True)"

definition development_pass :: "filters \<Rightarrow> row \<Rightarrow> bool" where
  "development_pass fs r =
     (if truthy (f_development fs) \<and> f_development fs \<noteq> Some ''All''
      then (if f_development fs = Some ''Yes''
            then is_development r = Some True
            else is_development r = Some False \<or> is_development r = None)
      else True)"

definition passes :: "filters \<Rightarrow> row \<Rightarrow> bool" where
  "passes fs r = (year_pass fs r \<and> type_pass fs r \<and> focus_pass fs r \<and> development_pass fs r)"

text \<open>
  In the store \<open>fst hr\<close> the frames of \<open>h0\<close> are as they were, and the reference \<open>snd hr\<close>
  points to a frame allocated after them that holds the table \<open>t\<close>.
\<close>

definition frame_at :: "heap \<Rightarrow> table \<Rightarrow> heap \<times> nat \<Rightarrow> bool" where
  "frame_at h0 t hr =
     (take (length h0) (fst hr) = h0 \<and> length h0 \<le> snd hr \<and> snd hr < length (fst hr)
      \<and> fst hr ! snd hr = t)"

section \<open>Properties\<close>

subsection \<open>The filter as one predicate\<close>

lemma filter_twice: "filter P (filter Q xs) = filter (\<lambda>x. Q x \<and> P x) xs"
  by (induction xs) auto

lemma if_filter: "(if c then filter P xs else xs) = filter (\<lambda>x. if c then P x else True) xs"
  by simp

lemma if_if_filter:
  "(if c then (if d then filter P xs else filter Q xs) else xs)
   = filter (\<lambda>x. if c then (if d then P x else Q x) else True) xs"
  by simp

lemma apply_filters_passes: "apply_filters df fs = filter (passes fs) df"
  unfolding apply_filters_def Let_def passes_def year_pass_def type_pass_def focus_pass_def
    development_pass_def
  apply (simp only: if_filter if_if_filter)
  apply (simp only: filter_twice conj_assoc)
  done

lemma filter_eq_pointwise: "(\<And>x. P x = Q x) \<Longrightarrow> filter P xs = filter Q xs"
  by (induction xs) auto

lemma filter_all: "(\<And>x. P x) \<Longrightarrow> filter P xs = xs"
  by (induction xs) auto

lemma mset_filter_split:
  "(\<And>x. Q x = (\<not> P x)) \<Longrightarrow> mset (filter P xs) + mset (filter Q xs) = mset xs"
  by (induction xs) auto

subsection \<open>The filter on the store\<close>

lemma frame_at_copy: "frame_at h0 t (new_frame h0 t)"
  by (simp add: frame_at_def new_frame_def)

lemma frame_at_new:
  "frame_at h0 t hr \<Longrightarrow> frame_at h0 (filter P t) (new_frame (fst hr) (filter P (fst hr ! snd hr)))"
  by (auto simp add: frame_at_def new_frame_def)

lemma frame_at_if:
  "frame_at h0 t hr \<Longrightarrow>
   frame_at h0 (if c then filter P t else t)
     (if c then new_frame (fst hr) (filter P (fst hr ! snd hr)) else hr)"
  by (simp add: frame_at_new)

lemma frame_at_if_if:
  "frame_at h0 t hr \<Longrightarrow>
   frame_at h0 (if c then (if d then filter P t else filter Q t) else t)
     (if c then (if d then new_frame (fst hr) (filter P (fst hr ! snd hr))
                 else new_frame (fst hr) (filter Q (fst hr ! snd hr)))
      else hr)"
  by (simp add: frame_at_new)

lemma apply_filters_heap_frame_at:
  "frame_at h (apply_filters (h ! df) fs) (apply_filters_heap h df fs)"
  unfolding apply_filters_heap_def apply_filters_def
  apply (simp only: Let_def case_prod_beta prod.collapse)
  apply (rule frame_at_if_if)
  apply (rule frame_at_if_if)
  apply (rule frame_at_if)
  apply (rule frame_at_if)
  apply (rule frame_at_copy)
  done

lemma frame_at_old:
  assumes "frame_at h0 t hr" and "i < length h0"
  shows "fst hr ! i = h0 ! i \<and> snd hr \<noteq> i"
proof -
  from assms(1) have tk: "take (length h0) (fst hr) = h0" and le: "length h0 \<le> snd hr"
    by (simp_all add: frame_at_def)
  have "take (length h0) (fst hr) ! i = fst hr ! i"
    using assms(2) by simp
  with tk le assms(2) show ?thesis by simp
qed

subsection \<open>Specifications restricted to chosen keys\<close>

lemma year_pass_only:
  "year_pass (only ds fs) r = (if Years \<in> set ds then year_pass fs r else True)"
  by (simp add: year_pass_def only_def truthy_def)

lemma type_pass_only:
  "type_pass (only ds fs) r = (if Paper_type \<in> set ds then type_pass fs r else True)"
  by (simp add: type_pass_def only_def truthy_def)

lemma focus_pass_only:
  "focus_pass (only ds fs) r = (if Focus \<in> set ds then focus_pass fs r else True)"
  by (simp add: focus_pass_def only_def truthy_def)

lemma development_pass_only:
  "development_pass (only ds fs) r
   = (if Development \<in> set ds then development_pass fs r else True)"
  by (simp add: development_pass_def only_def truthy_def)

lemmas pass_only = year_pass_only type_pass_only focus_pass_only development_pass_only

lemma passes_only2:
  assumes "d1 \<noteq> d2"
  shows "(passes (only [d1] fs) r \<and> passes (only [d2] fs) r) = passes (only [d1, d2] fs) r"
  using assms by (cases d1; cases d2) (simp_all add: passes_def pass_only, blast+)

lemma passes_no_filters: "passes no_filters r"
  by (simp add: passes_def year_pass_def type_pass_def focus_pass_def development_pass_def
      no_filters_def truthy_def)

lemma passes_development_yes:
  "passes (no_filters\<lparr>f_development := Some ''Yes''\<rparr>) r = (is_development r = Some True)"
  by (simp add: passes_def year_pass_def type_pass_def focus_pass_def development_pass_def
      no_filters_def truthy_def)

lemma passes_development_no:
  "passes (no_filters\<lparr>f_development := Some ''No''\<rparr>) r
   = (is_development r = Some False \<or> is_development r = None)"
  by (simp add: passes_def year_pass_def type_pass_def focus_pass_def development_pass_def
      no_filters_def truthy_def)

subsection \<open>Claims about apply_filters\<close>

text \<open>
  C10: every row that \<open>apply_filters\<close> returns is a row of the input with its values as
  they were, no row occurs more often in the output than in the input, and the rows that
  are kept stand in the order of the input: the output is a subsequence of the input.
\<close>

theorem apply_filters_subseq:
  "subseq (apply_filters df fs) df
   \<and> mset (apply_filters df fs) \<subseteq># mset df
   \<and> set (apply_filters df fs) \<subseteq> set df"
  by (simp add: apply_filters_passes)

text \<open>
  C2 (identity law): with the empty filter specification \<open>apply_filters\<close> returns a table
  equal to its input, rows, order and values; so does the filter step of the view when
  the specification is absent or empty. On the store, the frame returned for the empty
  specification holds the input table, it is not the caller's frame, and the caller's
  frame is as it was.
\<close>

theorem apply_filters_identity:
  "apply_filters df no_filters = df
   \<and> view_filtered df None = df
   \<and> view_filtered df (Some no_filters) = df
   \<and> (ref < length h \<longrightarrow>
        fst (apply_filters_heap h ref no_filters) ! snd (apply_filters_heap h ref no_filters)
          = h ! ref
        \<and> fst (apply_filters_heap h ref no_filters) ! ref = h ! ref
        \<and> snd (apply_filters_heap h ref no_filters) \<noteq> ref)"
proof -
  have a: "\<And>t. apply_filters t no_filters = t"
    by (simp add: apply_filters_passes filter_all [OF passes_no_filters])
  have v: "view_filtered df None = df \<and> view_filtered df (Some no_filters) = df"
    by (simp add: view_filtered_def has_key_def no_filters_def)
  have fr: "frame_at h (h ! ref) (apply_filters_heap h ref no_filters)"
    using apply_filters_heap_frame_at [of h ref no_filters] by (simp add: a)
  have s: "ref < length h \<longrightarrow>
        fst (apply_filters_heap h ref no_filters) ! snd (apply_filters_heap h ref no_filters)
          = h ! ref
        \<and> fst (apply_filters_heap h ref no_filters) ! ref = h ! ref
        \<and> snd (apply_filters_heap h ref no_filters) \<noteq> ref"
    using fr frame_at_old [OF fr, of ref] by (simp add: frame_at_def)
  from a v s show ?thesis by simp
qed

theorem apply_filters_identity_witness:
  "(0::nat) < length [[a_row 1 ''A'' None None ''Other'']]
   \<and> fst (apply_filters_heap [[a_row 1 ''A'' None None ''Other'']] 0 no_filters) ! 0
       = [a_row 1 ''A'' None None ''Other'']
   \<and> snd (apply_filters_heap [[a_row 1 ''A'' None None ''Other'']] 0 no_filters) \<noteq> 0"
  using apply_filters_identity [of "[a_row 1 ''A'' None None ''Other'']"
      0 "[[a_row 1 ''A'' None None ''Other'']]"]
  by simp

text \<open>
  C3 (conjunctive law): for two different keys \<open>d1\<close> and \<open>d2\<close> of a specification \<open>fs\<close>,
  filtering by the specification that has only \<open>d1\<close> and then by the one that has only
  \<open>d2\<close> gives the table that one call with both keys gives.
\<close>

theorem apply_filters_conjunctive:
  assumes "d1 \<noteq> d2"
  shows "apply_filters (apply_filters df (only [d1] fs)) (only [d2] fs)
         = apply_filters df (only [d1, d2] fs)"
proof -
  have "filter (\<lambda>r. passes (only [d1] fs) r \<and> passes (only [d2] fs) r) df
        = filter (passes (only [d1, d2] fs)) df"
    by (rule filter_eq_pointwise) (rule passes_only2 [OF assms])
  then show ?thesis
    by (simp add: apply_filters_passes)
qed

theorem apply_filters_conjunctive_witness:
  "Years \<noteq> Focus
   \<and> apply_filters
       (apply_filters [a_row 1 ''A'' (Some 2021) None ''Other'',
                       a_row 2 ''B'' (Some 2021) None ''Neurosymbolic'']
          (only [Years] (no_filters\<lparr>f_years := Some [2021], f_focus := Some ''Neurosymbolic''\<rparr>)))
       (only [Focus] (no_filters\<lparr>f_years := Some [2021], f_focus := Some ''Neurosymbolic''\<rparr>))
     = apply_filters [a_row 1 ''A'' (Some 2021) None ''Other'',
                      a_row 2 ''B'' (Some 2021) None ''Neurosymbolic'']
         (only [Years, Focus]
            (no_filters\<lparr>f_years := Some [2021], f_focus := Some ''Neurosymbolic''\<rparr>))"
  using apply_filters_conjunctive [of Years Focus]
  by simp

text \<open>
  C4 (development filter): with \<open>development = "Yes"\<close> the filter selects exactly the rows
  whose flag is true, with \<open>development = "No"\<close> exactly the rows whose flag is false or
  missing, and the two selections partition the table: together they have every row as
  often as the table has it, and no row is in both.
\<close>

theorem development_filter_partition:
  "apply_filters df (no_filters\<lparr>f_development := Some ''Yes''\<rparr>)
     = filter (\<lambda>r. is_development r = Some True) df
   \<and> apply_filters df (no_filters\<lparr>f_development := Some ''No''\<rparr>)
     = filter (\<lambda>r. is_development r = Some False \<or> is_development r = None) df
   \<and> mset (apply_filters df (no_filters\<lparr>f_development := Some ''Yes''\<rparr>))
     + mset (apply_filters df (no_filters\<lparr>f_development := Some ''No''\<rparr>)) = mset df
   \<and> set (apply_filters df (no_filters\<lparr>f_development := Some ''Yes''\<rparr>))
     \<inter> set (apply_filters df (no_filters\<lparr>f_development := Some ''No''\<rparr>)) = {}"
proof -
  have y: "apply_filters df (no_filters\<lparr>f_development := Some ''Yes''\<rparr>)
     = filter (\<lambda>r. is_development r = Some True) df"
    unfolding apply_filters_passes
    by (rule filter_eq_pointwise) (rule passes_development_yes)
  have n: "apply_filters df (no_filters\<lparr>f_development := Some ''No''\<rparr>)
     = filter (\<lambda>r. is_development r = Some False \<or> is_development r = None) df"
    unfolding apply_filters_passes
    by (rule filter_eq_pointwise) (rule passes_development_no)
  have c: "\<And>r. (is_development r = Some False \<or> is_development r = None)
              = (\<not> is_development r = Some True)"
    by auto
  have m: "mset (filter (\<lambda>r. is_development r = Some True) df)
     + mset (filter (\<lambda>r. is_development r = Some False \<or> is_development r = None) df) = mset df"
    by (rule mset_filter_split) (rule c)
  have d: "set (filter (\<lambda>r. is_development r = Some True) df)
     \<inter> set (filter (\<lambda>r. is_development r = Some False \<or> is_development r = None) df) = {}"
    by auto
  show ?thesis
    unfolding y n using m d by simp
qed

subsection \<open>The focus and the year filter\<close>

lemma passes_focus:
  "passes (no_filters\<lparr>f_focus := fo\<rparr>) r
   = (if truthy fo \<and> fo \<noteq> Some ''All''
      then (if fo = Some ''Neurosymbolic'' then assessment_status r = ''Neurosymbolic''
            else assessment_status r = ''Unassessed'' \<or> assessment_status r = ''Other'')
      else True)"
  by (simp add: passes_def year_pass_def type_pass_def focus_pass_def development_pass_def
      no_filters_def truthy_def)

lemma isin_iff: "isin cell ys = (\<exists>y\<in>set ys. cell = Some y)"
  by (cases cell) (auto simp add: isin_def)

lemma passes_years:
  "passes (no_filters\<lparr>f_years := yo\<rparr>) r
   = (if truthy yo then (\<exists>y\<in>set (the yo). publication_year r = Some y) else True)"
  by (simp add: passes_def year_pass_def type_pass_def focus_pass_def development_pass_def
      no_filters_def truthy_def isin_iff)

lemma map_eq_three:
  "map f xs = [a, b, c] \<Longrightarrow> \<exists>x y z. xs = [x, y, z] \<and> f x = a \<and> f y = b \<and> f z = c"
  by (auto simp add: map_eq_Cons_conv)

text \<open>
  C8 (focus filter), as the code has it: no focus key, the value \<open>"All"\<close> and the empty
  string apply no restriction; \<open>"Neurosymbolic"\<close> keeps exactly the rows whose status is
  Neurosymbolic, so an unassessed paper is left out; every other value that is not empty
  keeps exactly the rows whose status is Unassessed or Other.
\<close>

theorem focus_filter_semantics:
  "apply_filters df (no_filters\<lparr>f_focus := None\<rparr>) = df
   \<and> apply_filters df (no_filters\<lparr>f_focus := Some ''All''\<rparr>) = df
   \<and> apply_filters df (no_filters\<lparr>f_focus := Some []\<rparr>) = df
   \<and> apply_filters df (no_filters\<lparr>f_focus := Some ''Neurosymbolic''\<rparr>)
       = filter (\<lambda>r. assessment_status r = ''Neurosymbolic'') df
   \<and> (v \<noteq> [] \<and> v \<noteq> ''All'' \<and> v \<noteq> ''Neurosymbolic'' \<longrightarrow>
        apply_filters df (no_filters\<lparr>f_focus := Some v\<rparr>)
          = filter (\<lambda>r. assessment_status r = ''Unassessed'' \<or> assessment_status r = ''Other'') df)"
proof -
  have 1: "apply_filters df (no_filters\<lparr>f_focus := None\<rparr>) = df"
    unfolding apply_filters_passes by (rule filter_all) (simp add: passes_focus truthy_def)
  have 2: "apply_filters df (no_filters\<lparr>f_focus := Some ''All''\<rparr>) = df"
    unfolding apply_filters_passes by (rule filter_all) (simp add: passes_focus truthy_def)
  have 3: "apply_filters df (no_filters\<lparr>f_focus := Some []\<rparr>) = df"
    unfolding apply_filters_passes by (rule filter_all) (simp add: passes_focus truthy_def)
  have 4: "apply_filters df (no_filters\<lparr>f_focus := Some ''Neurosymbolic''\<rparr>)
       = filter (\<lambda>r. assessment_status r = ''Neurosymbolic'') df"
    unfolding apply_filters_passes
    by (rule filter_eq_pointwise) (simp add: passes_focus truthy_def)
  have 5: "apply_filters df (no_filters\<lparr>f_focus := Some v\<rparr>)
          = filter (\<lambda>r. assessment_status r = ''Unassessed'' \<or> assessment_status r = ''Other'') df"
    if "v \<noteq> []" "v \<noteq> ''All''" "v \<noteq> ''Neurosymbolic''"
    unfolding apply_filters_passes
    by (rule filter_eq_pointwise) (simp add: passes_focus truthy_def that)
  from 1 2 3 4 5 show ?thesis by blast
qed

theorem focus_filter_semantics_witness:
  "''Unassessed/Other'' \<noteq> [] \<and> ''Unassessed/Other'' \<noteq> ''All''
   \<and> ''Unassessed/Other'' \<noteq> ''Neurosymbolic''
   \<and> apply_filters [a_row 1 ''A'' None None ''Neurosymbolic'', a_row 2 ''B'' None None ''Unassessed'']
        (no_filters\<lparr>f_focus := Some ''Unassessed/Other''\<rparr>)
      = [a_row 2 ''B'' None None ''Unassessed'']"
  using focus_filter_semantics [of
      "[a_row 1 ''A'' None None ''Neurosymbolic'', a_row 2 ''B'' None None ''Unassessed'']"
      "''Unassessed/Other''"]
  by (simp add: a_row_def)

theorem focus_filter_counterexample:
  "[] \<noteq> ''All'' \<and> [] \<noteq> ''Neurosymbolic''
   \<and> assessment_status (a_row 1 ''A'' None None ''Neurosymbolic'') = ''Neurosymbolic''
   \<and> apply_filters [a_row 1 ''A'' None None ''Neurosymbolic''] (no_filters\<lparr>f_focus := Some []\<rparr>)
      = [a_row 1 ''A'' None None ''Neurosymbolic'']"
  by (simp add: apply_filters_passes passes_focus truthy_def a_row_def)

text \<open>
  C9 (year filter): a list of years that is not empty keeps exactly the rows whose
  publication year is one of them; no \<open>years\<close> key and the empty list keep every row. A
  table of three rows with the years 2020, 2021, 2021 filtered with \<open>years = [2021]\<close> has
  two rows left, both of 2021.
\<close>

theorem year_filter_semantics:
  "apply_filters df (no_filters\<lparr>f_years := None\<rparr>) = df
   \<and> apply_filters df (no_filters\<lparr>f_years := Some []\<rparr>) = df
   \<and> (ys \<noteq> [] \<longrightarrow>
        apply_filters df (no_filters\<lparr>f_years := Some ys\<rparr>)
          = filter (\<lambda>r. \<exists>y\<in>set ys. publication_year r = Some y) df)
   \<and> (map publication_year t3 = [Some 2020, Some 2021, Some 2021] \<longrightarrow>
        length (apply_filters t3 (no_filters\<lparr>f_years := Some [2021]\<rparr>)) = 2
        \<and> (\<forall>r\<in>set (apply_filters t3 (no_filters\<lparr>f_years := Some [2021]\<rparr>)).
              publication_year r = Some 2021))"
proof -
  have 1: "apply_filters df (no_filters\<lparr>f_years := None\<rparr>) = df"
    unfolding apply_filters_passes by (rule filter_all) (simp add: passes_years truthy_def)
  have 2: "apply_filters df (no_filters\<lparr>f_years := Some []\<rparr>) = df"
    unfolding apply_filters_passes by (rule filter_all) (simp add: passes_years truthy_def)
  have 3: "apply_filters df (no_filters\<lparr>f_years := Some ys\<rparr>)
          = filter (\<lambda>r. \<exists>y\<in>set ys. publication_year r = Some y) df" if "ys \<noteq> []"
    unfolding apply_filters_passes
    by (rule filter_eq_pointwise) (simp add: passes_years truthy_def that)
  have 4: "length (apply_filters t3 (no_filters\<lparr>f_years := Some [2021]\<rparr>)) = 2
        \<and> (\<forall>r\<in>set (apply_filters t3 (no_filters\<lparr>f_years := Some [2021]\<rparr>)).
              publication_year r = Some 2021)"
    if m: "map publication_year t3 = [Some 2020, Some 2021, Some 2021]"
  proof -
    from map_eq_three [OF m] obtain x y z where
      t: "t3 = [x, y, z]" and x: "publication_year x = Some 2020"
      and y: "publication_year y = Some 2021" and z: "publication_year z = Some 2021"
      by blast
    have "apply_filters t3 (no_filters\<lparr>f_years := Some [2021]\<rparr>) = [y, z]"
      by (simp add: apply_filters_passes t x y z passes_years truthy_def)
    then show ?thesis by (simp add: y z)
  qed
  from 1 2 3 4 show ?thesis by blast
qed

theorem year_filter_semantics_witness:
  "[2021] \<noteq> ([] :: int list)
   \<and> map publication_year
       [a_row 1 ''A'' (Some 2020) None ''Other'', a_row 2 ''B'' (Some 2021) None ''Other'',
        a_row 3 ''C'' (Some 2021) None ''Other''] = [Some 2020, Some 2021, Some 2021]
   \<and> apply_filters
       [a_row 1 ''A'' (Some 2020) None ''Other'', a_row 2 ''B'' (Some 2021) None ''Other'',
        a_row 3 ''C'' (Some 2021) None ''Other''] (no_filters\<lparr>f_years := Some [2021]\<rparr>)
     = [a_row 2 ''B'' (Some 2021) None ''Other'', a_row 3 ''C'' (Some 2021) None ''Other'']
   \<and> length (apply_filters
       [a_row 1 ''A'' (Some 2020) None ''Other'', a_row 2 ''B'' (Some 2021) None ''Other'',
        a_row 3 ''C'' (Some 2021) None ''Other''] (no_filters\<lparr>f_years := Some [2021]\<rparr>)) = 2"
  using year_filter_semantics [of
      "[a_row 1 ''A'' (Some 2020) None ''Other'', a_row 2 ''B'' (Some 2021) None ''Other'',
        a_row 3 ''C'' (Some 2021) None ''Other'']" "[2021]"
      "[a_row 1 ''A'' (Some 2020) None ''Other'', a_row 2 ''B'' (Some 2021) None ''Other'',
        a_row 3 ''C'' (Some 2021) None ''Other'']"]
  by (simp add: a_row_def)

subsection \<open>The loaded table\<close>

lemma set_load_paper_details:
  "set (load_paper_details ps as) = select_row ` set (left_join ps as)"
  by (simp add: load_paper_details_def order_by_desc_def)

lemma join_one:
  "(p, ao) \<in> set (case ms of [] \<Rightarrow> [(q, None)] | m # rest \<Rightarrow> map (\<lambda>a. (q, Some a)) (m # rest))
   \<longleftrightarrow> q = p \<and> (case ao of None \<Rightarrow> ms = [] | Some a \<Rightarrow> a \<in> set ms)"
  by (cases ms; cases ao) auto

lemma in_left_join:
  "(p, ao) \<in> set (left_join ps as) \<longleftrightarrow>
     p \<in> set ps
     \<and> (case ao of None \<Rightarrow> filter (\<lambda>a. p_id p = a_paper_id a) as = []
         | Some a \<Rightarrow> a \<in> set (filter (\<lambda>a. p_id p = a_paper_id a) as))"
  unfolding left_join_def set_concat set_map
  by (simp only: UN_iff bex_simps join_one) blast

lemma status_of_row:
  "assessment_status (select_row (p, ao))
   = (case ao of None \<Rightarrow> ''Unassessed''
      | Some a \<Rightarrow> if a_is_neurosymbolic a = Some True then ''Neurosymbolic'' else ''Other'')"
  by (cases ao) (simp_all add: select_row_def status_case_def a_col_def)

lemma columns_of_row:
  "row_id (select_row (p, ao)) = p_id p
   \<and> is_neurosymbolic (select_row (p, ao)) = (case ao of None \<Rightarrow> None | Some a \<Rightarrow> a_is_neurosymbolic a)"
  by (cases ao) (simp_all add: select_row_def a_col_def)

text \<open>
  C5 (status totality): every row of the loaded table has one of the three statuses
  Unassessed, Neurosymbolic, Other; it is Unassessed exactly when no assessment row has
  the paper's id; it is Neurosymbolic exactly when an assessment matches and the
  neurosymbolic flag joined into the row is true; it is Other in the remaining case, when
  an assessment matches and that flag is false or missing.
\<close>

theorem status_totality:
  "\<forall>r \<in> set (load_paper_details ps as).
     assessment_status r \<in> {''Unassessed'', ''Neurosymbolic'', ''Other''}
     \<and> (assessment_status r = ''Unassessed'' \<longleftrightarrow> \<not> (\<exists>a \<in> set as. a_paper_id a = row_id r))
     \<and> (assessment_status r = ''Neurosymbolic'' \<longleftrightarrow>
          (\<exists>a \<in> set as. a_paper_id a = row_id r) \<and> is_neurosymbolic r = Some True)
     \<and> (assessment_status r = ''Other'' \<longleftrightarrow>
          (\<exists>a \<in> set as. a_paper_id a = row_id r) \<and> is_neurosymbolic r \<noteq> Some True)"
proof
  fix r
  assume "r \<in> set (load_paper_details ps as)"
  then obtain p ao where r: "r = select_row (p, ao)" and j: "(p, ao) \<in> set (left_join ps as)"
    by (auto simp add: set_load_paper_details)
  show "assessment_status r \<in> {''Unassessed'', ''Neurosymbolic'', ''Other''}
     \<and> (assessment_status r = ''Unassessed'' \<longleftrightarrow> \<not> (\<exists>a \<in> set as. a_paper_id a = row_id r))
     \<and> (assessment_status r = ''Neurosymbolic'' \<longleftrightarrow>
          (\<exists>a \<in> set as. a_paper_id a = row_id r) \<and> is_neurosymbolic r = Some True)
     \<and> (assessment_status r = ''Other'' \<longleftrightarrow>
          (\<exists>a \<in> set as. a_paper_id a = row_id r) \<and> is_neurosymbolic r \<noteq> Some True)"
  proof (cases ao)
    case None
    with j have "\<not> (\<exists>a \<in> set as. a_paper_id a = p_id p)"
      by (auto simp add: in_left_join filter_empty_conv)
    then show ?thesis
      by (simp add: r None status_of_row columns_of_row)
  next
    case (Some a)
    with j have "\<exists>a \<in> set as. a_paper_id a = p_id p"
      by (auto simp add: in_left_join)
    then show ?thesis
      by (simp add: r Some status_of_row columns_of_row)
  qed
qed

theorem status_totality_witness:
  "select_row (a_paper 1 ''A'', Some (an_assessment 1 (Some True)))
     \<in> set (load_paper_details [a_paper 1 ''A''] [an_assessment 1 (Some True)])
   \<and> assessment_status (select_row (a_paper 1 ''A'', Some (an_assessment 1 (Some True))))
       = ''Neurosymbolic''
   \<and> a_paper_id (an_assessment 1 (Some True))
       = row_id (select_row (a_paper 1 ''A'', Some (an_assessment 1 (Some True))))"
proof -
  have m: "select_row (a_paper 1 ''A'', Some (an_assessment 1 (Some True)))
     \<in> set (load_paper_details [a_paper 1 ''A''] [an_assessment 1 (Some True)])"
    by (simp add: load_paper_details_def order_by_desc_def left_join_def a_paper_def
        an_assessment_def)
  have s: "assessment_status (select_row (a_paper 1 ''A'', Some (an_assessment 1 (Some True))))
       = ''Neurosymbolic''"
    by (simp add: status_of_row an_assessment_def)
  from status_totality [of "[a_paper 1 ''A'']" "[an_assessment 1 (Some True)]"] m s
  show ?thesis by auto
qed

subsection \<open>The label and the selector\<close>

text \<open>
  C1 (selector roundtrip) does not hold of the code. In the table with the titles
  \<open>Deep Learning for Logic\<close> and \<open>Deep Learning\<close>, in this order, the first 100 characters
  of the titles are pairwise distinct. The label of the second row is
  \<open>[Other] Deep Learning\<close>; the selector takes \<open>Deep Learning\<close> from it, both titles start
  with that, and \<open>.iloc[0]\<close> returns the first row: a paper other than the selected one.
\<close>

theorem selector_roundtrip_counterexample:
  "unique_prefixes [a_row 1 ''Deep Learning for Logic'' None None ''Other'',
                    a_row 2 ''Deep Learning'' None None ''Other'']
   \<and> format_paper_title (a_row 2 ''Deep Learning'' None None ''Other'') = ''[Other] Deep Learning''
   \<and> extract_title ''[Other] Deep Learning'' = Inr ''Deep Learning''
   \<and> selector [a_row 1 ''Deep Learning for Logic'' None None ''Other'',
                a_row 2 ''Deep Learning'' None None ''Other'']
        (format_paper_title (a_row 2 ''Deep Learning'' None None ''Other''))
      = Inr (a_row 1 ''Deep Learning for Logic'' None None ''Other'')
   \<and> a_row 1 ''Deep Learning for Logic'' None None ''Other''
      \<noteq> a_row 2 ''Deep Learning'' None None ''Other''"
  by (simp add: unique_prefixes_def selector_def extract_title_def format_paper_title_def
      startswith_def a_row_def)

text \<open>
  C6 (a title of exactly 100 characters) does not hold of the code. The label of such a
  row is the status prefix followed by the full title, with no ellipsis marker appended.
  But the selector cuts the label at the first ellipsis marker also when the marker is
  part of the title: for the title \<open>dotted_title\<close> it extracts \<open>And yet\<close>, not the full
  title, and in a table with pairwise distinct first 100 characters it returns the
  earlier row \<open>And yet it moves\<close>.
\<close>

theorem exact_100_boundary_counterexample:
  "length (title (a_row 2 dotted_title None None ''Other'')) = 100
   \<and> unique_prefixes
       [a_row 1 ''And yet it moves'' None None ''Other'', a_row 2 dotted_title None None ''Other'']
   \<and> format_paper_title (a_row 2 dotted_title None None ''Other'') = ''[Other] '' @ dotted_title
   \<and> extract_title (format_paper_title (a_row 2 dotted_title None None ''Other''))
       = Inr ''And yet''
   \<and> selector
       [a_row 1 ''And yet it moves'' None None ''Other'', a_row 2 dotted_title None None ''Other'']
       (format_paper_title (a_row 2 dotted_title None None ''Other''))
      = Inr (a_row 1 ''And yet it moves'' None None ''Other'')
   \<and> a_row 1 ''And yet it moves'' None None ''Other'' \<noteq> a_row 2 dotted_title None None ''Other''"
  by (simp add: unique_prefixes_def selector_def extract_title_def format_paper_title_def
      startswith_def a_row_def dotted_title_def)




end
